theory Spec2Isabelle
  imports Complex_Main "HOL-Library.Word" "HOL-Library.Signed_Division"
begin

section \<open>Machine integers, time and errors\<close>

text \<open>
  Go's \<open>int\<close>, \<open>int64\<close> and \<open>uint\<close> on a 64-bit platform: 64-bit words. Arithmetic
  wraps around; \<open>sint\<close> reads a word as the signed value the comparisons of the code see.
  The conversions \<open>int64(p.PerPage)\<close> and \<open>int(...)\<close> between \<open>int\<close> and \<open>int64\<close> are the
  identity at this width.
\<close>

type_synonym go_int = "64 word"
type_synonym go_uint = "64 word"

text \<open>Go's \<open>/\<close> on signed integers truncates towards zero (and wraps at \<open>MinInt64 / -1\<close>).\<close>

definition go_div :: "go_int \<Rightarrow> go_int \<Rightarrow> go_int" where
  "go_div a b = word_of_int (sint a sdiv sint b)"

text \<open>
  A \<open>time.Time\<close> is an instant: nanoseconds counted from Go's zero \<open>Time\<close> (so the zero
  value is 0). \<open>UTC()\<close> changes the location a time prints in, never the instant, and
  \<open>Before\<close> compares instants. A \<open>time.Duration\<close> is a number of nanoseconds.
\<close>

type_synonym time = int

definition Hour :: int where
  "Hour = 3600 * 1000000000"

definition UTC :: "time \<Rightarrow> time" where
  "UTC t = t"

definition Before :: "time \<Rightarrow> time \<Rightarrow> bool" where
  "Before t u = (t < u)"

definition Add :: "time \<Rightarrow> int \<Rightarrow> time" where
  "Add t d = t + d"

text \<open>
  Every \<open>errors.New\<close> of the services and repositories is one constructor; \<open>Error\<close> gives
  the message the handlers sniff. \<open>ErrInvalidValue\<close> is \<open>gorm.ErrInvalidValue\<close> and
  \<open>DBError\<close> any other failure the database reports, with its text.
\<close>

datatype error =
    TodoNil | TodoTitleRequired | TodoTitleTooLong | TodoDescriptionTooLong
  | InvalidPriorityValue | DueDateInPast | SpecifiedCategoryDoesNotExist
  | InvalidTodoID | InvalidPriorityFilter | TodoNotFound
  | CategoryNil | CategoryNameRequired | CategoryNameTooLong | InvalidColorFormat
  | InvalidCategoryID | CategoryNotFound | CategoryNameExists | CategoryHasTodos
  | ErrInvalidValue | DBError string

fun Error :: "error \<Rightarrow> string" where
  "Error TodoNil = ''todo cannot be nil''"
| "Error TodoTitleRequired = ''todo title is required''"
| "Error TodoTitleTooLong = ''todo title cannot exceed 255 characters''"
| "Error TodoDescriptionTooLong = ''todo description cannot exceed 5000 characters''"
| "Error InvalidPriorityValue = ''invalid priority value''"
| "Error DueDateInPast = ''due date cannot be in the past''"
| "Error SpecifiedCategoryDoesNotExist = ''specified category does not exist''"
| "Error InvalidTodoID = ''invalid todo ID''"
| "Error InvalidPriorityFilter = ''invalid priority filter''"
| "Error TodoNotFound = ''todo not found''"
| "Error CategoryNil = ''category cannot be nil''"
| "Error CategoryNameRequired = ''category name is required''"
| "Error CategoryNameTooLong = ''category name cannot exceed 100 characters''"
| "Error InvalidColorFormat =
     ''invalid color format, must be a valid hex color (e.g., #FF0000)''"
| "Error InvalidCategoryID = ''invalid category ID''"
| "Error CategoryNotFound = ''category not found''"
| "Error CategoryNameExists = ''category name already exists''"
| "Error CategoryHasTodos = ''cannot delete category with associated todos''"
| "Error ErrInvalidValue = ''invalid value, should be pointer to struct or slice''"
| "Error (DBError m) = m"

text \<open>
  A call either returns or panics: dereferencing a nil pointer is a run-time panic, not
  an error value.
\<close>

datatype 'a outcome = NilPointerPanic | Return 'a

section \<open>Strings (package strings)\<close>

text \<open>
  Strings are byte sequences in UTF-8; \<open>len\<close> is \<open>length\<close>.

  \<open>TrimSpace\<close> removes the leading and the trailing runes that \<open>unicode.IsSpace\<close>
  accepts: tab, line feed, vertical tab, form feed, carriage return, space, U+0085,
  U+00A0, U+1680, U+2000 to U+200A, U+2028, U+2029, U+202F, U+205F and U+3000.
  \<open>space_runes\<close> lists their UTF-8 encodings. Decoding from the front yields such a rune
  exactly when the string begins with its encoding, and decoding from the back (which
  steps back to the nearest byte that starts a rune) exactly when the string ends with
  it; a byte that is not part of a valid encoding decodes to \<open>RuneError\<close>, which is not a
  space, and stops the trimming.
\<close>

definition space_runes :: "nat list list" where
  "space_runes =
     [[0x09], [0x0A], [0x0B], [0x0C], [0x0D], [0x20],
      [0xC2, 0x85], [0xC2, 0xA0],
      [0xE1, 0x9A, 0x80],
      [0xE2, 0x80, 0x80], [0xE2, 0x80, 0x81], [0xE2, 0x80, 0x82], [0xE2, 0x80, 0x83],
      [0xE2, 0x80, 0x84], [0xE2, 0x80, 0x85], [0xE2, 0x80, 0x86], [0xE2, 0x80, 0x87],
      [0xE2, 0x80, 0x88], [0xE2, 0x80, 0x89], [0xE2, 0x80, 0x8A],
      [0xE2, 0x80, 0xA8], [0xE2, 0x80, 0xA9], [0xE2, 0x80, 0xAF],
      [0xE2, 0x81, 0x9F],
      [0xE3, 0x80, 0x80]]"

text \<open>The width in bytes of the space rune a string begins or ends with, 0 when none.\<close>

definition leading_space :: "string \<Rightarrow> nat" where
  "leading_space s =
     (case filter (\<lambda>e. take (length e) (map of_char s) = e) space_runes of
        [] \<Rightarrow> 0
      | e # _ \<Rightarrow> length e)"

definition trailing_space :: "string \<Rightarrow> nat" where
  "trailing_space s =
     (case filter (\<lambda>e. drop (length s - length e) (map of_char s) = e) space_runes of
        [] \<Rightarrow> 0
      | e # _ \<Rightarrow> length e)"

function TrimLeft :: "string \<Rightarrow> string" where
  "TrimLeft s = (if leading_space s = 0 then s else TrimLeft (drop (leading_space s) s))"
  by pat_completeness auto
termination
proof (relation "measure length")
  show "wf (measure length)" by simp
next
  fix s :: string
  assume w: "leading_space s \<noteq> 0"
  then have "s \<noteq> []" by (auto simp: leading_space_def space_runes_def)
  with w show "(drop (leading_space s) s, s) \<in> measure length" by simp
qed

function TrimRight :: "string \<Rightarrow> string" where
  "TrimRight s =
     (if trailing_space s = 0 then s else TrimRight (take (length s - trailing_space s) s))"
  by pat_completeness auto
termination
proof (relation "measure length")
  show "wf (measure length)" by simp
next
  fix s :: string
  assume w: "trailing_space s \<noteq> 0"
  then have "s \<noteq> []" by (auto simp: trailing_space_def space_runes_def)
  with w show "(take (length s - trailing_space s) s, s) \<in> measure length" by simp
qed

definition TrimSpace :: "string \<Rightarrow> string" where
  "TrimSpace s = TrimRight (TrimLeft s)"

text \<open>\<open>ToLower\<close> is modelled on the ASCII range: the letters lowered are \<open>A\<close> to \<open>Z\<close>.\<close>

definition toLowerChar :: "char \<Rightarrow> char" where
  "toLowerChar c =
     (if 65 \<le> (of_char c :: nat) \<and> (of_char c :: nat) \<le> 90
      then char_of (of_char c + 32 :: nat) else c)"


definition HasPrefix :: "string \<Rightarrow> string \<Rightarrow> bool" where
  "HasPrefix s pre = (take (length pre) s = pre)"

section \<open>Models (models/todo.go, models/category.go)\<close>

definition PriorityLow :: string where "PriorityLow = ''low''"
definition PriorityMedium :: string where "PriorityMedium = ''medium''"
definition PriorityHigh :: string where "PriorityHigh = ''high''"

definition IsValid :: "string \<Rightarrow> bool" where
  "IsValid p = (p = PriorityLow \<or> p = PriorityMedium \<or> p = PriorityHigh)"

text \<open>
  The columns of the two tables. A nil pointer field (\<open>DueDate\<close>, \<open>CategoryID\<close>) and a
  null \<open>DeletedAt\<close> are \<open>None\<close>. The association fields \<open>Todo.Category\<close> and
  \<open>Category.Todos\<close> are not columns and are left out.
\<close>

record Category =
  Category_ID :: go_uint
  Category_Name :: string
  Category_Color :: string
  Category_CreatedAt :: time
  Category_UpdatedAt :: time
  Category_DeletedAt :: "time option"

record Todo =
  Todo_ID :: go_uint
  Todo_Title :: string
  Todo_Description :: string
  Todo_Completed :: bool
  Todo_Priority :: string
  Todo_DueDate :: "time option"
  Todo_CategoryID :: "go_uint option"
  Todo_CreatedAt :: time
  Todo_UpdatedAt :: time
  Todo_DeletedAt :: "time option"

text \<open>The hooks GORM runs before an insert and before an update.\<close>

definition Category_BeforeCreate :: "Category \<Rightarrow> Category" where
  "Category_BeforeCreate c =
     (if Category_Color c = [] then c\<lparr>Category_Color := ''#3B82F6''\<rparr> else c)"

definition Todo_BeforeCreate :: "Todo \<Rightarrow> Todo" where
  "Todo_BeforeCreate t =
     (if Todo_Priority t = [] then t\<lparr>Todo_Priority := PriorityMedium\<rparr> else t)"

definition Todo_BeforeUpdate :: "Todo \<Rightarrow> error option" where
  "Todo_BeforeUpdate t =
     (if Todo_Priority t \<noteq> [] \<and> \<not> IsValid (Todo_Priority t)
      then Some ErrInvalidValue else None)"

definition ToggleComplete :: "Todo \<Rightarrow> Todo" where
  "ToggleComplete t = t\<lparr>Todo_Completed := \<not> Todo_Completed t\<rparr>"

section \<open>Pagination parameters (repository/pagination.go)\<close>

record PaginationParams =
  Page :: go_int
  Limit :: go_int
  SortBy :: string
  SortOrder :: string

text \<open>
  \<open>GetLimit\<close>: 10 when \<open>Limit <= 0\<close>, 100 when \<open>Limit > 100\<close>, \<open>Limit\<close> otherwise.
\<close>

definition GetLimit :: "PaginationParams \<Rightarrow> go_int" where
  "GetLimit p =
     (if sint (Limit p) \<le> 0 then 10
      else if sint (Limit p) > 100 then 100
      else Limit p)"

text \<open>
  \<open>GetOffset\<close> has a pointer receiver: it stores 1 into \<open>p.Page\<close> when \<open>Page <= 0\<close> and then
  returns \<open>(p.Page - 1) * p.GetLimit()\<close>. The model returns the offset together with the
  updated parameters.
\<close>

definition GetOffset :: "PaginationParams \<Rightarrow> go_int \<times> PaginationParams" where
  "GetOffset p =
     (let p' = (if sint (Page p) \<le> 0 then p\<lparr>Page := 1\<rparr> else p)
      in ((Page p' - 1) * GetLimit p', p'))"

definition GetSortOrder :: "PaginationParams \<Rightarrow> string" where
  "GetSortOrder p = (if SortOrder p = [] then ''desc'' else SortOrder p)"

record PaginationResult =
  CurrentPage :: go_int
  PerPage :: go_int
  Total :: go_int
  TotalPages :: go_int

text \<open>
  \<open>CalculateTotalPages\<close> assigns \<open>TotalPages\<close> only when \<open>PerPage > 0\<close>; otherwise the field
  keeps the value it had.
\<close>

definition CalculateTotalPages :: "PaginationResult \<Rightarrow> PaginationResult" where
  "CalculateTotalPages r =
     (if sint (PerPage r) > 0
      then r\<lparr>TotalPages := go_div (Total r + PerPage r - 1) (PerPage r)\<rparr>
      else r)"

text \<open>
  The struct literal of both \<open>List\<close> methods,
  \<open>PaginationResult{CurrentPage: .., PerPage: .., Total: ..}\<close>: the field that is not named,
  \<open>TotalPages\<close>, holds Go's zero value.
\<close>

definition newPaginationResult :: "go_int \<Rightarrow> go_int \<Rightarrow> go_int \<Rightarrow> PaginationResult" where
  "newPaginationResult cur per tot =
     \<lparr>CurrentPage = cur, PerPage = per, Total = tot, TotalPages = 0\<rparr>"

section \<open>The store\<close>

text \<open>
  GORM over PostgreSQL lies outside the repository. The model keeps what the repository
  code relies on: a table is the list of its rows, soft-deleted rows included; every
  query on a model with a \<open>DeletedAt\<close> column carries \<open>deleted_at IS NULL\<close>; \<open>First\<close> yields
  the first matching row or \<open>ErrRecordNotFound\<close>; \<open>Delete\<close> stamps \<open>deleted_at\<close> on the
  live rows with that key; \<open>Count\<close> counts the rows of the query before ordering and
  paging. Each table has the sequence that numbers rows inserted with a zero key.
\<close>

record DB =
  categories :: "Category list"
  todos :: "Todo list"
  categories_id_seq :: go_uint
  todos_id_seq :: go_uint

definition First_Category :: "DB \<Rightarrow> go_uint \<Rightarrow> Category option" where
  "First_Category db i =
     find (\<lambda>c. Category_ID c = i \<and> Category_DeletedAt c = None) (categories db)"

definition First_Todo :: "DB \<Rightarrow> go_uint \<Rightarrow> Todo option" where
  "First_Todo db i =
     find (\<lambda>t. Todo_ID t = i \<and> Todo_DeletedAt t = None) (todos db)"

text \<open>
  Inserting a row: a zero key is replaced by the next value of the sequence (which
  advances even when the insert fails), zero timestamps by the current time. The insert
  fails with a duplicate-key error when the key or, for categories, the name (a unique
  index over all rows) is already in the table.
\<close>

definition duplicate_key :: string where
  "duplicate_key = ''ERROR: duplicate key value violates unique constraint''"

definition Insert_Category :: "time \<Rightarrow> DB \<Rightarrow> Category \<Rightarrow> error option \<times> Category \<times> DB" where
  "Insert_Category now db c0 =
     (let c1 = Category_BeforeCreate c0;
          c2 = c1\<lparr>Category_CreatedAt :=
                    (if Category_CreatedAt c1 = 0 then now else Category_CreatedAt c1),
                  Category_UpdatedAt :=
                    (if Category_UpdatedAt c1 = 0 then now else Category_UpdatedAt c1)\<rparr>;
          fresh = (Category_ID c2 = 0);
          i = (if fresh then categories_id_seq db + 1 else Category_ID c2);
          db1 = (if fresh then db\<lparr>categories_id_seq := i\<rparr> else db);
          c3 = c2\<lparr>Category_ID := i\<rparr>
      in if list_ex (\<lambda>r. Category_ID r = i \<or> Category_Name r = Category_Name c3) (categories db)
         then (Some (DBError duplicate_key), c2, db1)
         else (None, c3, db1\<lparr>categories := categories db @ [c3]\<rparr>))"

definition Insert_Todo :: "time \<Rightarrow> DB \<Rightarrow> Todo \<Rightarrow> error option \<times> Todo \<times> DB" where
  "Insert_Todo now db t0 =
     (let t1 = Todo_BeforeCreate t0;
          t2 = t1\<lparr>Todo_CreatedAt := (if Todo_CreatedAt t1 = 0 then now else Todo_CreatedAt t1),
                  Todo_UpdatedAt := (if Todo_UpdatedAt t1 = 0 then now else Todo_UpdatedAt t1)\<rparr>;
          fresh = (Todo_ID t2 = 0);
          i = (if fresh then todos_id_seq db + 1 else Todo_ID t2);
          db1 = (if fresh then db\<lparr>todos_id_seq := i\<rparr> else db);
          t3 = t2\<lparr>Todo_ID := i\<rparr>
      in if list_ex (\<lambda>r. Todo_ID r = i) (todos db)
         then (Some (DBError duplicate_key), t2, db1)
         else (None, t3, db1\<lparr>todos := todos db @ [t3]\<rparr>))"

text \<open>
  \<open>Save\<close> of a struct whose key is not zero: every column of the live row with that key
  is overwritten, \<open>updated_at\<close> with the current time. The repositories call it only
  after \<open>First\<close> has found the row.
\<close>

definition Save_Category :: "time \<Rightarrow> DB \<Rightarrow> Category \<Rightarrow> error option \<times> Category \<times> DB" where
  "Save_Category now db c0 =
     (let c1 = c0\<lparr>Category_UpdatedAt := now\<rparr>
      in if list_ex (\<lambda>r. Category_ID r \<noteq> Category_ID c1 \<and> Category_Name r = Category_Name c1)
              (categories db)
         then (Some (DBError duplicate_key), c1, db)
         else (None, c1,
               db\<lparr>categories :=
                    map (\<lambda>r. if Category_ID r = Category_ID c1 \<and> Category_DeletedAt r = None
                              then c1 else r) (categories db)\<rparr>))"

definition Save_Todo :: "time \<Rightarrow> DB \<Rightarrow> Todo \<Rightarrow> error option \<times> Todo \<times> DB" where
  "Save_Todo now db t0 =
     (case Todo_BeforeUpdate t0 of
        Some e \<Rightarrow> (Some e, t0, db)
      | None \<Rightarrow>
          (let t1 = t0\<lparr>Todo_UpdatedAt := now\<rparr>
           in (None, t1,
               db\<lparr>todos :=
                    map (\<lambda>r. if Todo_ID r = Todo_ID t1 \<and> Todo_DeletedAt r = None
                              then t1 else r) (todos db)\<rparr>)))"

definition SoftDelete_Category :: "time \<Rightarrow> DB \<Rightarrow> Category \<Rightarrow> DB" where
  "SoftDelete_Category now db c =
     db\<lparr>categories :=
          map (\<lambda>r. if Category_ID r = Category_ID c \<and> Category_DeletedAt r = None
                    then r\<lparr>Category_DeletedAt := Some now\<rparr> else r) (categories db)\<rparr>"

definition SoftDelete_Todo :: "time \<Rightarrow> DB \<Rightarrow> Todo \<Rightarrow> DB" where
  "SoftDelete_Todo now db t =
     db\<lparr>todos :=
          map (\<lambda>r. if Todo_ID r = Todo_ID t \<and> Todo_DeletedAt r = None
                    then r\<lparr>Todo_DeletedAt := Some now\<rparr> else r) (todos db)\<rparr>"

text \<open>\<open>strings.Contains\<close>, as the repositories apply it to the text of a database error.\<close>

fun Contains :: "string \<Rightarrow> string \<Rightarrow> bool" where
  "Contains [] sub = (sub = [])"
| "Contains (c # s) sub = (take (length sub) (c # s) = sub \<or> Contains s sub)"

definition unique_violation :: "error \<Rightarrow> bool" where
  "unique_violation e =
     (Contains (Error e) ''duplicate key'' \<or> Contains (Error e) ''UNIQUE constraint'')"

section \<open>Category repository (repository/category_repository.go)\<close>

definition categoryRepository_Create ::
  "time \<Rightarrow> DB \<Rightarrow> Category \<Rightarrow> error option \<times> Category \<times> DB" where
  "categoryRepository_Create now db c =
     (case Insert_Category now db c of
        (Some e, c', db') \<Rightarrow>
          (if unique_violation e then (Some CategoryNameExists, c', db') else (Some e, c', db'))
      | (None, c', db') \<Rightarrow> (None, c', db'))"

definition categoryRepository_GetByID :: "DB \<Rightarrow> go_uint \<Rightarrow> error + Category" where
  "categoryRepository_GetByID db i =
     (case First_Category db i of
        None \<Rightarrow> Inl CategoryNotFound
      | Some c \<Rightarrow> Inr c)"

definition categoryRepository_Update ::
  "time \<Rightarrow> DB \<Rightarrow> Category \<Rightarrow> error option \<times> Category \<times> DB" where
  "categoryRepository_Update now db c =
     (case First_Category db (Category_ID c) of
        None \<Rightarrow> (Some CategoryNotFound, c, db)
      | Some existingCategory \<Rightarrow>
          (case Save_Category now db c of
             (Some e, c', db') \<Rightarrow>
               (if unique_violation e then (Some CategoryNameExists, c', db')
                else (Some e, c', db'))
           | (None, c', db') \<Rightarrow> (None, c', db')))"

text \<open>
  \<open>Delete\<close>: the category must be found; the todos counted are the live ones whose
  \<open>category_id\<close> is the key (the count, a non-negative \<open>bigint\<close>, is read as a \<open>nat\<close>);
  with none, the category is soft-deleted.
\<close>

definition categoryRepository_Delete :: "time \<Rightarrow> DB \<Rightarrow> go_uint \<Rightarrow> error option \<times> DB" where
  "categoryRepository_Delete now db i =
     (case First_Category db i of
        None \<Rightarrow> (Some CategoryNotFound, db)
      | Some category \<Rightarrow>
          (let todoCount =
                 length (filter (\<lambda>t. Todo_CategoryID t = Some i \<and> Todo_DeletedAt t = None)
                           (todos db))
           in if todoCount > 0 then (Some CategoryHasTodos, db)
              else (None, SoftDelete_Category now db category)))"

section \<open>Todo repository (repository/todo_repository.go)\<close>

definition todoRepository_Create :: "time \<Rightarrow> DB \<Rightarrow> Todo \<Rightarrow> error option \<times> Todo \<times> DB" where
  "todoRepository_Create now db t =
     (case (case Todo_CategoryID t of
              None \<Rightarrow> None
            | Some ci \<Rightarrow>
                (case First_Category db ci of None \<Rightarrow> Some CategoryNotFound | Some _ \<Rightarrow> None)) of
        Some e \<Rightarrow> (Some e, t, db)
      | None \<Rightarrow> Insert_Todo now db t)"

definition todoRepository_GetByID :: "DB \<Rightarrow> go_uint \<Rightarrow> error + Todo" where
  "todoRepository_GetByID db i =
     (case First_Todo db i of
        None \<Rightarrow> Inl TodoNotFound
      | Some t \<Rightarrow> Inr t)"

definition todoRepository_Update :: "time \<Rightarrow> DB \<Rightarrow> Todo \<Rightarrow> error option \<times> Todo \<times> DB" where
  "todoRepository_Update now db t =
     (case First_Todo db (Todo_ID t) of
        None \<Rightarrow> (Some TodoNotFound, t, db)
      | Some existingTodo \<Rightarrow>
          (case (case Todo_CategoryID t of
                   None \<Rightarrow> None
                 | Some ci \<Rightarrow>
                     (case First_Category db ci of
                        None \<Rightarrow> Some CategoryNotFound | Some _ \<Rightarrow> None)) of
             Some e \<Rightarrow> (Some e, t, db)
           | None \<Rightarrow> Save_Todo now db t))"

definition todoRepository_Delete :: "time \<Rightarrow> DB \<Rightarrow> go_uint \<Rightarrow> error option \<times> DB" where
  "todoRepository_Delete now db i =
     (case First_Todo db i of
        None \<Rightarrow> (Some TodoNotFound, db)
      | Some t \<Rightarrow> (None, SoftDelete_Todo now db t))"

subsection \<open>The list query\<close>




definition LOWER :: "string \<Rightarrow> string" where
  "LOWER s = map toLowerChar s"



text \<open>
  \<open>ORDER BY\<close>. The clause is the string the code builds. The database reads the custom
  clause as the rank of the priority, ascending or (with \<open>DESC\<close>) descending, and any
  other clause as a column followed by nothing, \<open>asc\<close> or \<open>desc\<close> in any letter case;
  a clause it cannot read fails the statement. Nulls are larger than every value, text
  compares bytewise, and rows with equal keys keep their table order.
\<close>

datatype sqlval = Null | BoolV bool | IntV int | TextV string



definition priority_case :: string where
  "priority_case =
     ''CASE priority WHEN 'high' THEN 1 WHEN 'medium' THEN 2 WHEN 'low' THEN 3 END''"

definition priority_rank :: "Todo \<Rightarrow> sqlval" where
  "priority_rank t =
     (if Todo_Priority t = ''high'' then IntV 1
      else if Todo_Priority t = ''medium'' then IntV 2
      else if Todo_Priority t = ''low'' then IntV 3
      else Null)"

definition todo_column :: "string \<Rightarrow> (Todo \<Rightarrow> sqlval) option" where
  "todo_column name =
     (if name = ''id'' then Some (\<lambda>t. IntV (uint (Todo_ID t)))
      else if name = ''title'' then Some (\<lambda>t. TextV (Todo_Title t))
      else if name = ''description'' then Some (\<lambda>t. TextV (Todo_Description t))
      else if name = ''completed'' then Some (\<lambda>t. BoolV (Todo_Completed t))
      else if name = ''priority'' then Some (\<lambda>t. TextV (Todo_Priority t))
      else if name = ''due_date'' then
        Some (\<lambda>t. case Todo_DueDate t of None \<Rightarrow> Null | Some d \<Rightarrow> IntV d)
      else if name = ''category_id'' then
        Some (\<lambda>t. case Todo_CategoryID t of None \<Rightarrow> Null | Some i \<Rightarrow> IntV (uint i))
      else if name = ''created_at'' then Some (\<lambda>t. IntV (Todo_CreatedAt t))
      else if name = ''updated_at'' then Some (\<lambda>t. IntV (Todo_UpdatedAt t))
      else if name = ''deleted_at'' then
        Some (\<lambda>t. case Todo_DeletedAt t of None \<Rightarrow> Null | Some d \<Rightarrow> IntV d)
      else None)"

datatype direction = Ascending | Descending

definition isBlank :: "char \<Rightarrow> bool" where
  "isBlank c = (of_char c \<in> {9, 10, 11, 12, 13, 32 :: nat})"

definition trim_blanks :: "string \<Rightarrow> string" where
  "trim_blanks s = rev (dropWhile isBlank (rev (dropWhile isBlank s)))"

definition direction_word :: "string \<Rightarrow> direction option" where
  "direction_word w =
     (let k = LOWER (trim_blanks w)
      in if k = [] \<or> k = ''asc'' then Some Ascending
         else if k = ''desc'' then Some Descending
         else None)"

definition read_order :: "string \<Rightarrow> ((Todo \<Rightarrow> sqlval) \<times> direction) option" where
  "read_order clause =
     (if clause = priority_case then Some (priority_rank, Ascending)
      else if clause = priority_case @ '' DESC'' then Some (priority_rank, Descending)
      else
        (let name = takeWhile (\<lambda>c. c \<noteq> CHR '' '') clause;
             word = drop (length name + 1) clause
         in case (todo_column name, direction_word word) of
              (Some key, Some d) \<Rightarrow> Some (key, d)
            | _ \<Rightarrow> None))"

fun insert_row :: "('a \<Rightarrow> 'a \<Rightarrow> bool) \<Rightarrow> 'a \<Rightarrow> 'a list \<Rightarrow> 'a list" where
  "insert_row le x [] = [x]"
| "insert_row le x (y # ys) = (if le x y then x # y # ys else y # insert_row le x ys)"

definition sort_rows :: "('a \<Rightarrow> 'a \<Rightarrow> bool) \<Rightarrow> 'a list \<Rightarrow> 'a list" where
  "sort_rows le xs = foldr (insert_row le) xs []"





text \<open>
  \<open>validSortFields\<close> of \<open>todoRepository.List\<close>; indexing a Go map with a missing key
  gives \<open>false\<close>.
\<close>

definition todo_validSortFields :: "(string \<times> bool) list" where
  "todo_validSortFields =
     [(''title'', True), (''completed'', True), (''priority'', True),
      (''due_date'', True), (''created_at'', True), (''updated_at'', True)]"

definition category_validSortFields :: "(string \<times> bool) list" where
  "category_validSortFields =
     [(''name'', True), (''created_at'', True), (''updated_at'', True)]"

definition index_map :: "(string \<times> bool) list \<Rightarrow> string \<Rightarrow> bool" where
  "index_map m k = (case map_of m k of None \<Rightarrow> False | Some b \<Rightarrow> b)"

definition resolve_sortBy :: "(string \<times> bool) list \<Rightarrow> PaginationParams \<Rightarrow> string" where
  "resolve_sortBy validSortFields pagination =
     (let sortBy = ''created_at''
      in if SortBy pagination \<noteq> [] then
           (if index_map validSortFields (SortBy pagination) then SortBy pagination
            else sortBy)
         else sortBy)"

definition todo_orderClause :: "PaginationParams \<Rightarrow> string" where
  "todo_orderClause pagination =
     (let sortBy = resolve_sortBy todo_validSortFields pagination
      in if sortBy = ''priority'' then
           (let orderClause = priority_case
            in if GetSortOrder pagination = ''desc'' then orderClause @ '' DESC''
               else orderClause)
         else sortBy @ '' '' @ GetSortOrder pagination)"

definition category_orderClause :: "PaginationParams \<Rightarrow> string" where
  "category_orderClause pagination =
     resolve_sortBy category_validSortFields pagination @ '' '' @ GetSortOrder pagination"



section \<open>Category service (services/category_service.go)\<close>

text \<open>
  The services receive pointers: \<open>None\<close> is the nil pointer. A service call returns the
  error, the struct as the call left it behind the pointer, and the store.
\<close>

definition isHexDigit :: "char \<Rightarrow> bool" where
  "isHexDigit c =
     (let n = (of_char c :: nat)
      in (48 \<le> n \<and> n \<le> 57) \<or> (65 \<le> n \<and> n \<le> 70) \<or> (97 \<le> n \<and> n \<le> 102))"

definition isValidHexColor :: "string \<Rightarrow> bool" where
  "isValidHexColor color =
     (if length color \<noteq> 7 then False
      else if color ! 0 \<noteq> CHR ''#'' then False
      else list_all isHexDigit (drop 1 color))"

definition validateCategory :: "Category option \<Rightarrow> error option" where
  "validateCategory category =
     (case category of
        None \<Rightarrow> Some CategoryNil
      | Some c \<Rightarrow>
          if TrimSpace (Category_Name c) = [] then Some CategoryNameRequired
          else if length (Category_Name c) > 100 then Some CategoryNameTooLong
          else if Category_Color c \<noteq> [] \<and> \<not> isValidHexColor (Category_Color c)
            then Some InvalidColorFormat
          else None)"

definition cleanCategoryData :: "Category \<Rightarrow> Category" where
  "cleanCategoryData c =
     (let c1 = c\<lparr>Category_Name := TrimSpace (Category_Name c)\<rparr>
      in if Category_Color c1 \<noteq> [] \<and> \<not> HasPrefix (Category_Color c1) ''#''
         then c1\<lparr>Category_Color := ''#'' @ Category_Color c1\<rparr>
         else c1)"

definition CreateCategory ::
  "time \<Rightarrow> DB \<Rightarrow> Category option \<Rightarrow> (error option \<times> Category option \<times> DB) outcome" where
  "CreateCategory now db category =
     (case validateCategory category of
        Some err \<Rightarrow> Return (Some err, category, db)
      | None \<Rightarrow>
          (case category of
             None \<Rightarrow> NilPointerPanic
           | Some c \<Rightarrow>
               (case categoryRepository_Create now db (cleanCategoryData c) of
                  (err, c', db') \<Rightarrow> Return (err, Some c', db'))))"

definition GetCategoryByID :: "DB \<Rightarrow> go_uint \<Rightarrow> error + Category" where
  "GetCategoryByID db i =
     (if i = 0 then Inl InvalidCategoryID else categoryRepository_GetByID db i)"

text \<open>\<open>UpdateCategory\<close> reads \<open>category.ID\<close> before anything else.\<close>

definition UpdateCategory ::
  "time \<Rightarrow> DB \<Rightarrow> Category option \<Rightarrow> (error option \<times> Category option \<times> DB) outcome" where
  "UpdateCategory now db category =
     (case category of
        None \<Rightarrow> NilPointerPanic
      | Some c \<Rightarrow>
          if Category_ID c = 0 then Return (Some InvalidCategoryID, category, db)
          else
            (case validateCategory category of
               Some err \<Rightarrow> Return (Some err, category, db)
             | None \<Rightarrow>
                 (case categoryRepository_Update now db (cleanCategoryData c) of
                    (err, c', db') \<Rightarrow> Return (err, Some c', db'))))"

definition DeleteCategory :: "time \<Rightarrow> DB \<Rightarrow> go_uint \<Rightarrow> error option \<times> DB" where
  "DeleteCategory now db i =
     (if i = 0 then (Some InvalidCategoryID, db) else categoryRepository_Delete now db i)"

section \<open>Todo service (services/todo_service.go)\<close>

definition validateTodo :: "Todo option \<Rightarrow> error option" where
  "validateTodo todo =
     (case todo of
        None \<Rightarrow> Some TodoNil
      | Some t \<Rightarrow>
          if TrimSpace (Todo_Title t) = [] then Some TodoTitleRequired
          else if length (Todo_Title t) > 255 then Some TodoTitleTooLong
          else if length (Todo_Description t) > 5000 then Some TodoDescriptionTooLong
          else if Todo_Priority t \<noteq> [] \<and> \<not> IsValid (Todo_Priority t)
            then Some InvalidPriorityValue
          else None)"

definition cleanTodoData :: "Todo \<Rightarrow> Todo" where
  "cleanTodoData t =
     (let t1 = t\<lparr>Todo_Title := TrimSpace (Todo_Title t),
                  Todo_Description := TrimSpace (Todo_Description t)\<rparr>;
          t2 = (if Todo_Priority t1 = [] then t1\<lparr>Todo_Priority := PriorityMedium\<rparr> else t1)
      in case Todo_DueDate t2 of
           None \<Rightarrow> t2
         | Some d \<Rightarrow> t2\<lparr>Todo_DueDate := Some (UTC d)\<rparr>)"

text \<open>
  \<open>validateTodoBusinessRules\<close>; \<open>now\<close> is what \<open>time.Now().UTC()\<close> returns and the
  tolerance is \<open>24 * time.Hour\<close>.
\<close>

definition validateTodoBusinessRules :: "time \<Rightarrow> DB \<Rightarrow> Todo \<Rightarrow> error option" where
  "validateTodoBusinessRules now db t =
     (let tolerance = 24 * Hour
      in if (case Todo_DueDate t of
               None \<Rightarrow> False
             | Some d \<Rightarrow> Before d (Add now (- tolerance)))
         then Some DueDateInPast
         else
           (case Todo_CategoryID t of
              None \<Rightarrow> None
            | Some ci \<Rightarrow>
                (case categoryRepository_GetByID db ci of
                   Inl err \<Rightarrow> Some SpecifiedCategoryDoesNotExist
                 | Inr _ \<Rightarrow> None)))"

definition CreateTodo ::
  "time \<Rightarrow> DB \<Rightarrow> Todo option \<Rightarrow> (error option \<times> Todo option \<times> DB) outcome" where
  "CreateTodo now db todo =
     (case validateTodo todo of
        Some err \<Rightarrow> Return (Some err, todo, db)
      | None \<Rightarrow>
          (case todo of
             None \<Rightarrow> NilPointerPanic
           | Some t0 \<Rightarrow>
               (let t = cleanTodoData t0
                in case validateTodoBusinessRules now db t of
                     Some err \<Rightarrow> Return (Some err, Some t, db)
                   | None \<Rightarrow>
                       (case todoRepository_Create now db t of
                          (err, t', db') \<Rightarrow> Return (err, Some t', db')))))"

text \<open>\<open>UpdateTodo\<close> reads \<open>todo.ID\<close> before anything else.\<close>

definition UpdateTodo ::
  "time \<Rightarrow> DB \<Rightarrow> Todo option \<Rightarrow> (error option \<times> Todo option \<times> DB) outcome" where
  "UpdateTodo now db todo =
     (case todo of
        None \<Rightarrow> NilPointerPanic
      | Some t0 \<Rightarrow>
          if Todo_ID t0 = 0 then Return (Some InvalidTodoID, todo, db)
          else
            (case validateTodo todo of
               Some err \<Rightarrow> Return (Some err, todo, db)
             | None \<Rightarrow>
                 (let t = cleanTodoData t0
                  in case validateTodoBusinessRules now db t of
                       Some err \<Rightarrow> Return (Some err, Some t, db)
                     | None \<Rightarrow>
                         (case todoRepository_Update now db t of
                            (err, t', db') \<Rightarrow> Return (err, Some t', db')))))"

section \<open>The filter and the rank in the words of the specification\<close>



section \<open>Example inputs\<close>

definition request_3_0 :: PaginationParams where
  "request_3_0 = \<lparr>Page = 3, Limit = 0, SortBy = [], SortOrder = []\<rparr>"

definition request_far_page :: PaginationParams where
  "request_far_page =
     \<lparr>Page = 4611686018427387905, Limit = 100, SortBy = [], SortOrder = []\<rparr>"

definition request_title_ASC :: PaginationParams where
  "request_title_ASC = \<lparr>Page = 1, Limit = 10, SortBy = ''title'', SortOrder = ''ASC''\<rparr>"

text \<open>Rows and requests the examples use.\<close>

definition todo_row ::
  "go_uint \<Rightarrow> string \<Rightarrow> bool \<Rightarrow> string \<Rightarrow> go_uint option \<Rightarrow> time option \<Rightarrow> Todo" where
  "todo_row i title done p cat del =
     \<lparr>Todo_ID = i, Todo_Title = title, Todo_Description = [], Todo_Completed = done,
      Todo_Priority = p, Todo_DueDate = None, Todo_CategoryID = cat, Todo_CreatedAt = 100,
      Todo_UpdatedAt = 100, Todo_DeletedAt = del\<rparr>"

definition category_row :: "go_uint \<Rightarrow> string \<Rightarrow> string \<Rightarrow> Category" where
  "category_row i name color =
     \<lparr>Category_ID = i, Category_Name = name, Category_Color = color,
      Category_CreatedAt = 100, Category_UpdatedAt = 100, Category_DeletedAt = None\<rparr>"

definition example_db :: DB where
  "example_db =
     \<lparr>categories = [category_row 1 ''Work'' ''#3B82F6'', category_row 2 ''Personal'' ''#10B981''],
      todos =
        [todo_row 1 ''write report'' False ''low'' (Some 1) None,
         todo_row 2 ''pay rent'' False ''high'' None None,
         todo_row 3 ''call bank'' False ''medium'' None None,
         todo_row 4 ''book flight'' True ''high'' None None,
         todo_row 5 ''old task'' False ''high'' None (Some 150),
         todo_row 6 ''fix bug'' False ''high'' None None],
      categories_id_seq = 2, todos_id_seq = 6\<rparr>"





definition new_category :: "go_uint \<Rightarrow> string \<Rightarrow> string \<Rightarrow> Category" where
  "new_category i name color =
     \<lparr>Category_ID = i, Category_Name = name, Category_Color = color,
      Category_CreatedAt = 0, Category_UpdatedAt = 0, Category_DeletedAt = None\<rparr>"

definition new_todo :: "time \<Rightarrow> Todo" where
  "new_todo due =
     \<lparr>Todo_ID = 0, Todo_Title = ''renew passport'', Todo_Description = [],
      Todo_Completed = False, Todo_Priority = [], Todo_DueDate = Some due,
      Todo_CategoryID = None, Todo_CreatedAt = 0, Todo_UpdatedAt = 0, Todo_DeletedAt = None\<rparr>"

section \<open>Pagination arithmetic\<close>

lemma GetLimit_range: "1 \<le> sint (GetLimit p) \<and> sint (GetLimit p) \<le> 100"
  by (simp add: GetLimit_def)

lemma GetOffset_page_pos: "1 \<le> sint (Page (snd (GetOffset p)))"
  by (simp add: GetOffset_def Let_def)


lemma sint_pred_64: "1 \<le> sint (x :: 64 word) \<Longrightarrow> sint (x - 1) = sint x - 1"
proof -
  assume h: "1 \<le> sint x"
  have "sint x < 2 ^ 63" using sint_lt [of x] by simp
  with h show ?thesis
    by (simp add: sint_word_ariths signed_take_bit_int_eq_self)
qed

lemma sint_mult_64:
  "0 \<le> sint (a :: 64 word) * sint (b :: 64 word) \<Longrightarrow> sint a * sint b < 2 ^ 63
    \<Longrightarrow> sint (a * b) = sint a * sint b"
  by (simp add: sint_word_ariths signed_take_bit_int_eq_self)

lemma sint_in_range_64:
  "- (2 ^ 63) \<le> k \<Longrightarrow> k < 2 ^ 63 \<Longrightarrow> sint (word_of_int k :: 64 word) = k"
  by (simp add: sint_sbintrunc' signed_take_bit_int_eq_self)

lemma ceil_div_int:
  fixes a b :: int
  assumes "0 < b"
  shows "(a + b - 1) div b = \<lceil>real_of_int a / real_of_int b\<rceil>"
proof -
  let ?q = "a div b" and ?r = "a mod b"
  have r: "0 \<le> ?r" "?r < b" using assms by simp_all
  have "?q * b + ?r = a" by (rule div_mult_mod_eq)
  then have "a + b - 1 = (?r + b - 1) + ?q * b" by linarith
  then have "(a + b - 1) div b = ((?r + b - 1) + ?q * b) div b" by (rule arg_cong)
  also have "\<dots> = ?q + (?r + b - 1) div b"
    using assms by (intro div_mult_self1) simp
  finally have e: "(a + b - 1) div b = (?r + b - 1) div b + ?q" by simp
  have m: "- a div b = (if ?r = 0 then - ?q else - ?q - 1)"
    using assms by (simp add: zdiv_zminus1_eq_if)
  have "(a + b - 1) div b = - (- a div b)"
  proof (cases "?r = 0")
    case True
    then have "(?r + b - 1) div b = 0" using assms by simp
    with e m True show ?thesis by simp
  next
    case False
    with r have "b \<le> ?r + b - 1" "?r + b - 1 < 2 * b" by simp_all
    then have "(?r + b - 1) div b = 1"
      using assms by (intro int_div_pos_eq [where r = "?r - 1"]) simp_all
    with e m False show ?thesis by simp
  qed
  then show ?thesis by (simp add: ceiling_divide_eq_div)
qed

text \<open>
  Claim C5, as it holds: the effective limit is 10 for \<open>limit <= 0\<close>, 100 for
  \<open>limit > 100\<close> and \<open>limit\<close> otherwise; the effective page is 1 for \<open>page <= 0\<close> and
  \<open>page\<close> otherwise; the offset is \<open>(page - 1) * limit\<close> of the effective values in Go's
  wrapping 64-bit arithmetic, and it is that product as an integer whenever the product
  is below \<open>2^63\<close>.
\<close>

theorem pagination_clamp:
  "(sint (Limit p) \<le> 0 \<longrightarrow> GetLimit p = 10)
   \<and> (100 < sint (Limit p) \<longrightarrow> GetLimit p = 100)
   \<and> (0 < sint (Limit p) \<and> sint (Limit p) \<le> 100 \<longrightarrow> GetLimit p = Limit p)
   \<and> (sint (Page p) \<le> 0 \<longrightarrow> Page (snd (GetOffset p)) = 1)
   \<and> (0 < sint (Page p) \<longrightarrow> Page (snd (GetOffset p)) = Page p)
   \<and> fst (GetOffset p) = (Page (snd (GetOffset p)) - 1) * GetLimit p
   \<and> ((sint (Page (snd (GetOffset p))) - 1) * sint (GetLimit p) < 2 ^ 63 \<longrightarrow>
        sint (fst (GetOffset p)) = (sint (Page (snd (GetOffset p))) - 1) * sint (GetLimit p))"
proof -
  let ?q = "snd (GetOffset p)"
  have lim: "(sint (Limit p) \<le> 0 \<longrightarrow> GetLimit p = 10)
     \<and> (100 < sint (Limit p) \<longrightarrow> GetLimit p = 100)
     \<and> (0 < sint (Limit p) \<and> sint (Limit p) \<le> 100 \<longrightarrow> GetLimit p = Limit p)"
    by (simp add: GetLimit_def)
  have pg: "(sint (Page p) \<le> 0 \<longrightarrow> Page ?q = 1) \<and> (0 < sint (Page p) \<longrightarrow> Page ?q = Page p)"
    by (simp add: GetOffset_def Let_def)
  have off: "fst (GetOffset p) = (Page ?q - 1) * GetLimit p"
    by (simp add: GetOffset_def Let_def GetLimit_def)
  have fits: "sint (fst (GetOffset p)) = (sint (Page ?q) - 1) * sint (GetLimit p)"
    if h: "(sint (Page ?q) - 1) * sint (GetLimit p) < 2 ^ 63"
  proof -
    have p1: "sint (Page ?q - 1) = sint (Page ?q) - 1"
      by (rule sint_pred_64) (rule GetOffset_page_pos)
    have nn: "0 \<le> sint (Page ?q - 1) * sint (GetLimit p)"
      using GetOffset_page_pos [of p] GetLimit_range [of p] by (simp add: p1)
    show ?thesis
      using sint_mult_64 [OF nn] h by (simp add: off p1)
  qed
  show ?thesis using lim pg off fits by blast
qed

theorem pagination_clamp_witness:
  "sint (Limit request_3_0) \<le> 0 \<and> GetLimit request_3_0 = 10
   \<and> 0 < sint (Page request_3_0) \<and> Page (snd (GetOffset request_3_0)) = 3
   \<and> sint (fst (GetOffset request_3_0)) = 20"
  using pagination_clamp [of request_3_0]
  by (simp add: request_3_0_def GetLimit_def)

text \<open>
  Page 4611686018427387905 with limit 100: the product \<open>2^62 * 100\<close> is a multiple of
  \<open>2^64\<close>, and the offset the code computes is 0.
\<close>

theorem offset_overflow_counterexample:
  "sint (fst (GetOffset request_far_page)) = 0
   \<and> (sint (Page (snd (GetOffset request_far_page))) - 1) * sint (GetLimit request_far_page)
       = 461168601842738790400"
  by (simp add: request_far_page_def GetOffset_def GetLimit_def)

text \<open>
  Claim C6, as it holds: on the result built from a non-negative total and a per-page
  value, \<open>TotalPages\<close> is \<open>(total + perPage - 1) / perPage\<close>, the ceiling of
  \<open>total / perPage\<close>, when \<open>perPage > 0\<close> and \<open>total + perPage - 1\<close> is below \<open>2^63\<close>
  (25 and 10 give 3); with \<open>perPage <= 0\<close> it is 0, the value the field had.
\<close>

theorem total_pages:
  "(0 \<le> sint tot \<and> 0 < sint per \<and> sint tot + sint per - 1 < 2 ^ 63 \<longrightarrow>
      sint (TotalPages (CalculateTotalPages (newPaginationResult cur per tot)))
        = (sint tot + sint per - 1) div sint per
      \<and> sint (TotalPages (CalculateTotalPages (newPaginationResult cur per tot)))
        = \<lceil>real_of_int (sint tot) / real_of_int (sint per)\<rceil>)
   \<and> (sint per \<le> 0 \<longrightarrow> TotalPages (CalculateTotalPages (newPaginationResult cur per tot)) = 0)
   \<and> (sint (PerPage r) \<le> 0 \<longrightarrow> CalculateTotalPages r = r)
   \<and> sint (TotalPages (CalculateTotalPages (newPaginationResult cur 10 25))) = 3"
proof -
  have main: "sint (TotalPages (CalculateTotalPages (newPaginationResult cur per tot)))
        = (sint tot + sint per - 1) div sint per"
    if t: "0 \<le> sint tot" and p: "0 < sint per" and f: "sint tot + sint per - 1 < 2 ^ 63"
  proof -
    let ?n = "sint tot + sint per - 1"
    have w: "tot + per - 1 = word_of_int ?n" by simp
    have n0: "0 \<le> ?n" using t p by simp
    have sn: "sint (tot + per - 1) = ?n"
      unfolding w using n0 f by (intro sint_in_range_64) simp_all
    have q0: "0 \<le> ?n div sint per" using n0 p by (simp add: pos_imp_zdiv_nonneg_iff)
    have q1: "?n div sint per \<le> ?n"
      using n0 p zdiv_mono2 [of "sint tot + sint per - 1" 1 "sint per"] by simp
    have sd: "?n sdiv sint per = ?n div sint per"
      using n0 p by (simp add: signed_divide_int_def sgn_if)
    have "sint (go_div (tot + per - 1) per) = ?n div sint per"
      unfolding go_div_def sn sd using q0 q1 f by (intro sint_in_range_64) simp_all
    with p show ?thesis
      by (simp add: CalculateTotalPages_def newPaginationResult_def)
  qed
  have z: "TotalPages (CalculateTotalPages (newPaginationResult cur per tot)) = 0"
    if "sint per \<le> 0"
    using that by (simp add: CalculateTotalPages_def newPaginationResult_def)
  have u: "CalculateTotalPages r = r" if "sint (PerPage r) \<le> 0"
    using that by (simp add: CalculateTotalPages_def)
  have ex: "sint (TotalPages (CalculateTotalPages (newPaginationResult cur 10 25))) = 3"
    by (simp add: CalculateTotalPages_def newPaginationResult_def go_div_def
        signed_divide_int_def)
  show ?thesis using main z u ex ceil_div_int [of "sint per" "sint tot"] by presburger
qed

theorem total_pages_witness:
  "sint (TotalPages (CalculateTotalPages (newPaginationResult 3 10 21))) = 3
   \<and> \<lceil>real_of_int 21 / real_of_int 10\<rceil> = 3
   \<and> TotalPages (CalculateTotalPages (newPaginationResult 3 0 21)) = 0"
  using total_pages [of 21 10 3] total_pages [of 21 0 3] by simp

text \<open>
  A total of \<open>2^63 - 1\<close> with 10 per page: the sum wraps and the division gives a
  negative count, where the ceiling is 922337203685477581.
\<close>

theorem total_pages_overflow_counterexample:
  "sint (TotalPages (CalculateTotalPages (newPaginationResult 1 10 9223372036854775807)))
     = - 922337203685477580
   \<and> (sint (9223372036854775807 :: go_int) + sint (10 :: go_int) - 1) div sint (10 :: go_int)
     = 922337203685477581"
  by (simp add: CalculateTotalPages_def newPaginationResult_def go_div_def
      signed_divide_int_def)

section \<open>Sort resolution\<close>

lemma index_todo_fields:
  "index_map todo_validSortFields f
     = (f \<in> {''title'', ''completed'', ''priority'', ''due_date'', ''created_at'', ''updated_at''})"
  by (simp add: index_map_def todo_validSortFields_def)

lemma index_category_fields:
  "index_map category_validSortFields f = (f \<in> {''name'', ''created_at'', ''updated_at''})"
  by (simp add: index_map_def category_validSortFields_def)

text \<open>
  Claim C2, as it holds: a sort field outside the allow-list of the resource (todos:
  title, completed, priority, due_date, created_at, updated_at; categories: name,
  created_at, updated_at) resolves to \<open>created_at\<close>, a field inside it to itself. The
  direction is \<open>desc\<close> only when none is requested; every other requested string is
  passed on as it is. The priority ordering gets \<open>DESC\<close> exactly for the direction
  \<open>desc\<close> or none.
\<close>

theorem sort_resolution:
  "(SortBy p \<notin> {''title'', ''completed'', ''priority'', ''due_date'', ''created_at'', ''updated_at''}
      \<longrightarrow> resolve_sortBy todo_validSortFields p = ''created_at'')
   \<and> (SortBy p \<in> {''title'', ''completed'', ''priority'', ''due_date'', ''created_at'', ''updated_at''}
      \<longrightarrow> resolve_sortBy todo_validSortFields p = SortBy p)
   \<and> (SortBy p \<notin> {''name'', ''created_at'', ''updated_at''}
      \<longrightarrow> resolve_sortBy category_validSortFields p = ''created_at'')
   \<and> (SortBy p \<in> {''name'', ''created_at'', ''updated_at''}
      \<longrightarrow> resolve_sortBy category_validSortFields p = SortBy p)
   \<and> (SortOrder p = [] \<longrightarrow> GetSortOrder p = ''desc'')
   \<and> (SortOrder p \<noteq> [] \<longrightarrow> GetSortOrder p = SortOrder p)
   \<and> (resolve_sortBy todo_validSortFields p \<noteq> ''priority'' \<longrightarrow>
        todo_orderClause p = resolve_sortBy todo_validSortFields p @ '' '' @ GetSortOrder p)
   \<and> (resolve_sortBy todo_validSortFields p = ''priority'' \<longrightarrow>
        todo_orderClause p
          = (if SortOrder p = [] \<or> SortOrder p = ''desc'' then priority_case @ '' DESC''
             else priority_case))
   \<and> (resolve_sortBy todo_validSortFields p = ''priority'' \<longrightarrow>
        map_option snd (read_order (todo_orderClause p))
          = Some (if SortOrder p = [] \<or> SortOrder p = ''desc'' then Descending
                  else Ascending))
   \<and> category_orderClause p = resolve_sortBy category_validSortFields p @ '' '' @ GetSortOrder p"
proof -
  have t: "resolve_sortBy todo_validSortFields p
      = (if SortBy p \<in> {''title'', ''completed'', ''priority'', ''due_date'', ''created_at'',
            ''updated_at''} then SortBy p else ''created_at'')"
    unfolding resolve_sortBy_def Let_def index_todo_fields by auto
  have c: "resolve_sortBy category_validSortFields p
      = (if SortBy p \<in> {''name'', ''created_at'', ''updated_at''} then SortBy p
         else ''created_at'')"
    unfolding resolve_sortBy_def Let_def index_category_fields by auto
  have g: "GetSortOrder p = (if SortOrder p = [] then ''desc'' else SortOrder p)"
    by (simp add: GetSortOrder_def)
  have o1: "todo_orderClause p = resolve_sortBy todo_validSortFields p @ '' '' @ GetSortOrder p"
    if "resolve_sortBy todo_validSortFields p \<noteq> ''priority''"
    using that by (simp add: todo_orderClause_def Let_def)
  have o2: "todo_orderClause p
          = (if SortOrder p = [] \<or> SortOrder p = ''desc'' then priority_case @ '' DESC''
             else priority_case)"
    if "resolve_sortBy todo_validSortFields p = ''priority''"
    using that by (simp add: todo_orderClause_def Let_def g)
  have o3: "category_orderClause p
      = resolve_sortBy category_validSortFields p @ '' '' @ GetSortOrder p"
    by (simp add: category_orderClause_def)
  have o4: "map_option snd (read_order (todo_orderClause p))
          = Some (if SortOrder p = [] \<or> SortOrder p = ''desc'' then Descending
                  else Ascending)"
    if "resolve_sortBy todo_validSortFields p = ''priority''"
    using o2 [OF that] by (simp add: read_order_def)
  show ?thesis
    apply (intro conjI impI)
    using t c g o1 o2 o3 o4 by simp_all
qed

theorem sort_resolution_witness:
  "resolve_sortBy todo_validSortFields request_3_0 = ''created_at''
   \<and> GetSortOrder request_3_0 = ''desc''
   \<and> todo_orderClause request_3_0 = ''created_at desc''
   \<and> resolve_sortBy todo_validSortFields request_title_ASC = ''title''"
  using sort_resolution [of request_3_0] sort_resolution [of request_title_ASC]
  by (simp add: request_3_0_def request_title_ASC_def)

lemma LOWER_ASC: "LOWER ''ASC'' = ''asc''"
  by code_simp

text \<open>
  The direction \<open>ASC\<close> is neither \<open>asc\<close> nor \<open>desc\<close>; it reaches the database as
  written, which sorts ascending.
\<close>

theorem sort_direction_counterexample:
  "SortOrder request_title_ASC \<noteq> ''asc'' \<and> SortOrder request_title_ASC \<noteq> ''desc''
   \<and> GetSortOrder request_title_ASC = ''ASC''
   \<and> todo_orderClause request_title_ASC = ''title ASC''
   \<and> map_option snd (read_order (todo_orderClause request_title_ASC)) = Some Ascending"
  by (simp add: request_title_ASC_def GetSortOrder_def todo_orderClause_def resolve_sortBy_def
      index_map_def todo_validSortFields_def read_order_def priority_case_def todo_column_def
      direction_word_def trim_blanks_def isBlank_def LOWER_ASC Let_def)

section \<open>The list query\<close>



lemma length_insert_row: "length (insert_row le x xs) = Suc (length xs)"
  by (induction xs) auto

lemma length_sort_rows: "length (sort_rows le xs) = length xs"
  unfolding sort_rows_def by (induction xs) (simp_all add: length_insert_row)






























section \<open>Services\<close>

lemma TrimSpace_Nil: "TrimSpace [] = []"
  by code_simp

lemma TrimSpace_renew: "TrimSpace ''renew passport'' = ''renew passport''"
  by code_simp

lemma TrimSpace_Urgent: "TrimSpace ''Urgent'' = ''Urgent''"
  by code_simp

lemma TrimSpace_Home: "TrimSpace '' Home '' = ''Home''"
  by code_simp

text \<open>
  A name or title that is one no-break space (U+00A0, the bytes C2 A0) trims to the
  empty string and is refused as missing.
\<close>

lemma TrimSpace_no_break_space: "TrimSpace [CHR 0xC2, CHR 0xA0] = []"
  by code_simp

lemma no_break_space_refused:
  "Todo_Title t = [CHR 0xC2, CHR 0xA0] \<Longrightarrow> validateTodo (Some t) = Some TodoTitleRequired"
  "Category_Name c = [CHR 0xC2, CHR 0xA0] \<Longrightarrow>
     validateCategory (Some c) = Some CategoryNameRequired"
  by (simp_all add: validateTodo_def validateCategory_def TrimSpace_no_break_space)

text \<open>
  Claim C4 at the nil pointer: the two create operations return the validation error
  and leave the store alone; the two update operations read the \<open>ID\<close> field of the nil
  pointer first and panic.
\<close>

theorem nil_input:
  "CreateTodo now db None = Return (Some TodoNil, None, db)
   \<and> CreateCategory now db None = Return (Some CategoryNil, None, db)
   \<and> UpdateTodo now db None = NilPointerPanic
   \<and> UpdateCategory now db None = NilPointerPanic"
  by (simp add: CreateTodo_def CreateCategory_def UpdateTodo_def UpdateCategory_def
      validateTodo_def validateCategory_def)

lemma First_Category_live:
  "First_Category db i = Some c \<Longrightarrow>
     c \<in> set (categories db) \<and> Category_ID c = i \<and> Category_DeletedAt c = None"
  unfolding First_Category_def by (auto simp: find_Some_iff)

lemma First_Category_SoftDelete:
  "Category_ID c = i \<Longrightarrow> First_Category (SoftDelete_Category now db c) i = None"
  unfolding First_Category_def SoftDelete_Category_def
  by (auto simp: find_None_iff)

text \<open>
  Claim C9: for a live category with a non-zero key, \<open>DeleteCategory\<close> fails with the
  has-dependents error and leaves the store as it was (the category still found, not
  deleted) when a live todo references it; otherwise it succeeds, the category carries
  the deletion time, no row with that key is live, and get-by-id reports not found.
\<close>

theorem delete_category:
  assumes "i \<noteq> 0" and "First_Category db i = Some c"
  shows "((\<exists>t \<in> set (todos db). Todo_CategoryID t = Some i \<and> Todo_DeletedAt t = None) \<longrightarrow>
            DeleteCategory now db i = (Some CategoryHasTodos, db)
            \<and> GetCategoryByID db i = Inr c \<and> Category_DeletedAt c = None)
       \<and> (\<not> (\<exists>t \<in> set (todos db). Todo_CategoryID t = Some i \<and> Todo_DeletedAt t = None) \<longrightarrow>
            (\<exists>db'. DeleteCategory now db i = (None, db')
               \<and> c\<lparr>Category_DeletedAt := Some now\<rparr> \<in> set (categories db')
               \<and> (\<forall>r \<in> set (categories db'). Category_ID r = i \<longrightarrow> Category_DeletedAt r \<noteq> None)
               \<and> todos db' = todos db
               \<and> GetCategoryByID db' i = Inl CategoryNotFound))"
proof (intro conjI impI)
  note live = First_Category_live [OF assms(2)]
  {
    assume "\<exists>t \<in> set (todos db). Todo_CategoryID t = Some i \<and> Todo_DeletedAt t = None"
    then have "filter (\<lambda>t. Todo_CategoryID t = Some i \<and> Todo_DeletedAt t = None) (todos db) \<noteq> []"
      by (simp add: filter_empty_conv)
    then show "DeleteCategory now db i = (Some CategoryHasTodos, db)"
      using assms by (simp add: DeleteCategory_def categoryRepository_Delete_def Let_def)
    show "GetCategoryByID db i = Inr c"
      using assms by (simp add: GetCategoryByID_def categoryRepository_GetByID_def)
    show "Category_DeletedAt c = None" using live by simp
  }
  {
    assume "\<not> (\<exists>t \<in> set (todos db). Todo_CategoryID t = Some i \<and> Todo_DeletedAt t = None)"
    then have e: "filter (\<lambda>t. Todo_CategoryID t = Some i \<and> Todo_DeletedAt t = None) (todos db) = []"
      by (simp add: filter_empty_conv)
    let ?db = "SoftDelete_Category now db c"
    have d: "DeleteCategory now db i = (None, ?db)"
      using assms e by (simp add: DeleteCategory_def categoryRepository_Delete_def Let_def)
    have m: "c\<lparr>Category_DeletedAt := Some now\<rparr> \<in> set (categories ?db)"
      using live by (force simp: SoftDelete_Category_def)
    have a: "\<forall>r \<in> set (categories ?db). Category_ID r = i \<longrightarrow> Category_DeletedAt r \<noteq> None"
      using live by (auto simp: SoftDelete_Category_def)
    have t: "todos ?db = todos db" by (simp add: SoftDelete_Category_def)
    have g: "GetCategoryByID ?db i = Inl CategoryNotFound"
      using assms(1) live
      by (simp add: GetCategoryByID_def categoryRepository_GetByID_def First_Category_SoftDelete)
    show "\<exists>db'. DeleteCategory now db i = (None, db')
               \<and> c\<lparr>Category_DeletedAt := Some now\<rparr> \<in> set (categories db')
               \<and> (\<forall>r \<in> set (categories db'). Category_ID r = i \<longrightarrow> Category_DeletedAt r \<noteq> None)
               \<and> todos db' = todos db
               \<and> GetCategoryByID db' i = Inl CategoryNotFound"
      using d m a t g by blast
  }
qed

lemma example_first_category:
  "First_Category example_db 1 = Some (category_row 1 ''Work'' ''#3B82F6'')"
  "First_Category example_db 2 = Some (category_row 2 ''Personal'' ''#10B981'')"
  by (simp_all add: First_Category_def example_db_def category_row_def)

lemma example_references:
  "\<exists>t \<in> set (todos example_db). Todo_CategoryID t = Some 1 \<and> Todo_DeletedAt t = None"
  "\<not> (\<exists>t \<in> set (todos example_db). Todo_CategoryID t = Some 2 \<and> Todo_DeletedAt t = None)"
  by (simp_all add: example_db_def todo_row_def)

text \<open>
  In the example store category 1 is referenced by a live todo and category 2 by none.
\<close>

theorem delete_category_witness:
  "First_Category example_db 1 = Some (category_row 1 ''Work'' ''#3B82F6'')
   \<and> DeleteCategory 200 example_db 1 = (Some CategoryHasTodos, example_db)
   \<and> GetCategoryByID example_db 1 = Inr (category_row 1 ''Work'' ''#3B82F6'')
   \<and> First_Category example_db 2 = Some (category_row 2 ''Personal'' ''#10B981'')
   \<and> (\<exists>db'. DeleteCategory 200 example_db 2 = (None, db')
         \<and> (category_row 2 ''Personal'' ''#10B981'')\<lparr>Category_DeletedAt := Some 200\<rparr>
               \<in> set (categories db')
         \<and> GetCategoryByID db' 2 = Inl CategoryNotFound)"
proof -
  have n: "(1 :: go_uint) \<noteq> 0" "(2 :: go_uint) \<noteq> 0" by simp_all
  from delete_category [OF n(1) example_first_category(1), of 200]
    delete_category [OF n(2) example_first_category(2), of 200]
    example_references example_first_category
  show ?thesis by blast
qed

lemma cleanTodoData_fields:
  "Todo_DueDate (cleanTodoData t) = Todo_DueDate t"
  "Todo_CategoryID (cleanTodoData t) = Todo_CategoryID t"
  "Todo_ID (cleanTodoData t) = Todo_ID t"
  by (simp_all add: cleanTodoData_def Let_def UTC_def split: option.splits)

lemma business_rules_due:
  "(validateTodoBusinessRules now db t = Some DueDateInPast)
     = (\<exists>d. Todo_DueDate t = Some d \<and> d < now - 24 * Hour)"
  by (auto simp: validateTodoBusinessRules_def Let_def Before_def Add_def
      split: option.splits sum.splits)

lemma todoRepository_Create_error:
  "fst (todoRepository_Create now db t) \<noteq> Some DueDateInPast"
  by (auto simp: todoRepository_Create_def Insert_Todo_def Let_def split: option.splits)

lemma todoRepository_Update_error:
  "fst (todoRepository_Update now db t) \<noteq> Some DueDateInPast"
  by (auto simp: todoRepository_Update_def Save_Todo_def Todo_BeforeUpdate_def Let_def
      split: option.splits)

lemma CreateTodo_valid:
  assumes "validateTodo (Some t) = None"
  shows "CreateTodo now db (Some t) =
     (case validateTodoBusinessRules now db (cleanTodoData t) of
        Some err \<Rightarrow> Return (Some err, Some (cleanTodoData t), db)
      | None \<Rightarrow>
          Return (fst (todoRepository_Create now db (cleanTodoData t)),
                  Some (fst (snd (todoRepository_Create now db (cleanTodoData t)))),
                  snd (snd (todoRepository_Create now db (cleanTodoData t)))))"
  using assms by (simp add: CreateTodo_def Let_def case_prod_beta split: option.splits)

lemma UpdateTodo_valid:
  assumes "validateTodo (Some t) = None" and "Todo_ID t \<noteq> 0"
  shows "UpdateTodo now db (Some t) =
     (case validateTodoBusinessRules now db (cleanTodoData t) of
        Some err \<Rightarrow> Return (Some err, Some (cleanTodoData t), db)
      | None \<Rightarrow>
          Return (fst (todoRepository_Update now db (cleanTodoData t)),
                  Some (fst (snd (todoRepository_Update now db (cleanTodoData t)))),
                  snd (snd (todoRepository_Update now db (cleanTodoData t)))))"
  using assms by (simp add: UpdateTodo_def Let_def case_prod_beta split: option.splits)

text \<open>
  Claim C8: for a todo that passes the basic validation and has a due date, create (and,
  with a non-zero key, update) returns the due-date error exactly when the due date is
  strictly before the current time minus 24 hours, and then the store is returned
  unchanged.
\<close>

theorem due_date_rule:
  assumes "validateTodo (Some t) = None" and "Todo_DueDate t = Some d"
  shows "((\<exists>t' db'. CreateTodo now db (Some t) = Return (Some DueDateInPast, t', db'))
            = (d < now - 24 * Hour))
       \<and> (d < now - 24 * Hour \<longrightarrow>
            CreateTodo now db (Some t) = Return (Some DueDateInPast, Some (cleanTodoData t), db))
       \<and> (Todo_ID t \<noteq> 0 \<longrightarrow>
            ((\<exists>t' db'. UpdateTodo now db (Some t) = Return (Some DueDateInPast, t', db'))
               = (d < now - 24 * Hour))
            \<and> (d < now - 24 * Hour \<longrightarrow>
                 UpdateTodo now db (Some t)
                   = Return (Some DueDateInPast, Some (cleanTodoData t), db)))"
proof -
  let ?t = "cleanTodoData t"
  have b: "(validateTodoBusinessRules now db ?t = Some DueDateInPast) = (d < now - 24 * Hour)"
    by (simp add: business_rules_due cleanTodoData_fields assms(2))
  have c1: "CreateTodo now db (Some t) = Return (Some DueDateInPast, Some ?t, db)"
    if "d < now - 24 * Hour"
    using that b by (simp add: CreateTodo_valid [OF assms(1)])
  have c2: "d < now - 24 * Hour"
    if "CreateTodo now db (Some t) = Return (Some DueDateInPast, t', db')" for t' db'
    using that b todoRepository_Create_error [of now db ?t]
    by (auto simp: CreateTodo_valid [OF assms(1)] split: option.splits)
  have u1: "UpdateTodo now db (Some t) = Return (Some DueDateInPast, Some ?t, db)"
    if "d < now - 24 * Hour" "Todo_ID t \<noteq> 0"
    using that b by (simp add: UpdateTodo_valid [OF assms(1)])
  have u2: "d < now - 24 * Hour"
    if "UpdateTodo now db (Some t) = Return (Some DueDateInPast, t', db')" "Todo_ID t \<noteq> 0"
    for t' db'
    using that b todoRepository_Update_error [of now db ?t]
    by (auto simp: UpdateTodo_valid [OF assms(1)] split: option.splits)
  show ?thesis using c1 c2 u1 u2 by blast
qed


lemma example_validate:
  "validateTodo (Some (new_todo due)) = None"
  by (simp add: validateTodo_def new_todo_def TrimSpace_renew)

lemma example_clean:
  "cleanTodoData (new_todo due) = (new_todo due)\<lparr>Todo_Priority := ''medium''\<rparr>"
  by (simp add: cleanTodoData_def new_todo_def TrimSpace_renew TrimSpace_Nil UTC_def
      PriorityMedium_def Let_def)

lemma example_create:
  "CreateTodo (100 * Hour) example_db (Some (new_todo (99 * Hour)))
     = Return (None,
         Some ((new_todo (99 * Hour))\<lparr>Todo_ID := 7, Todo_Priority := ''medium'',
                 Todo_CreatedAt := 100 * Hour, Todo_UpdatedAt := 100 * Hour\<rparr>),
         example_db\<lparr>todos := todos example_db
                       @ [(new_todo (99 * Hour))\<lparr>Todo_ID := 7, Todo_Priority := ''medium'',
                            Todo_CreatedAt := 100 * Hour, Todo_UpdatedAt := 100 * Hour\<rparr>],
                    todos_id_seq := 7\<rparr>)"
proof -
  have b: "validateTodoBusinessRules (100 * Hour) example_db
             ((new_todo (99 * Hour))\<lparr>Todo_Priority := ''medium''\<rparr>) = None"
    by (simp add: validateTodoBusinessRules_def new_todo_def Before_def Add_def Hour_def)
  have r: "todoRepository_Create (100 * Hour) example_db
             ((new_todo (99 * Hour))\<lparr>Todo_Priority := ''medium''\<rparr>)
           = (None,
              (new_todo (99 * Hour))\<lparr>Todo_ID := 7, Todo_Priority := ''medium'',
                 Todo_CreatedAt := 100 * Hour, Todo_UpdatedAt := 100 * Hour\<rparr>,
              example_db\<lparr>todos := todos example_db
                       @ [(new_todo (99 * Hour))\<lparr>Todo_ID := 7, Todo_Priority := ''medium'',
                            Todo_CreatedAt := 100 * Hour, Todo_UpdatedAt := 100 * Hour\<rparr>],
                    todos_id_seq := 7\<rparr>)"
    by (simp add: todoRepository_Create_def Insert_Todo_def Todo_BeforeCreate_def new_todo_def
        example_db_def todo_row_def Hour_def Let_def)
  show ?thesis
    by (simp add: CreateTodo_valid [OF example_validate] example_clean b r)
qed

text \<open>
  At hour 100: a due date 48 hours back is rejected and nothing is stored; one hour back
  is accepted and the todo is inserted.
\<close>

theorem due_date_rule_witness:
  "validateTodo (Some (new_todo (52 * Hour))) = None
   \<and> Todo_DueDate (new_todo (52 * Hour)) = Some (100 * Hour - 48 * Hour)
   \<and> CreateTodo (100 * Hour) example_db (Some (new_todo (52 * Hour)))
       = Return (Some DueDateInPast, Some (cleanTodoData (new_todo (52 * Hour))), example_db)
   \<and> Todo_DueDate (new_todo (99 * Hour)) = Some (100 * Hour - 1 * Hour)
   \<and> \<not> (\<exists>t' db'. CreateTodo (100 * Hour) example_db (Some (new_todo (99 * Hour)))
                     = Return (Some DueDateInPast, t', db'))
   \<and> CreateTodo (100 * Hour) example_db (Some (new_todo (99 * Hour)))
       = Return (None,
           Some ((new_todo (99 * Hour))\<lparr>Todo_ID := 7, Todo_Priority := ''medium'',
                   Todo_CreatedAt := 100 * Hour, Todo_UpdatedAt := 100 * Hour\<rparr>),
           example_db\<lparr>todos := todos example_db
                         @ [(new_todo (99 * Hour))\<lparr>Todo_ID := 7, Todo_Priority := ''medium'',
                              Todo_CreatedAt := 100 * Hour, Todo_UpdatedAt := 100 * Hour\<rparr>],
                      todos_id_seq := 7\<rparr>)"
proof -
  have d1: "Todo_DueDate (new_todo (52 * Hour)) = Some (52 * Hour)"
    and d2: "Todo_DueDate (new_todo (99 * Hour)) = Some (99 * Hour)"
    by (simp_all add: new_todo_def)
  have h1: "52 * Hour < 100 * Hour - 24 * Hour" and h2: "\<not> 99 * Hour < 100 * Hour - 24 * Hour"
    by (simp_all add: Hour_def)
  have v: "validateTodo (Some (new_todo (52 * Hour))) = None" by (rule example_validate)
  have e1: "Todo_DueDate (new_todo (52 * Hour)) = Some (100 * Hour - 48 * Hour)"
    and e2: "Todo_DueDate (new_todo (99 * Hour)) = Some (100 * Hour - 1 * Hour)"
    by (simp_all add: new_todo_def Hour_def)
  have r1: "CreateTodo (100 * Hour) example_db (Some (new_todo (52 * Hour)))
       = Return (Some DueDateInPast, Some (cleanTodoData (new_todo (52 * Hour))), example_db)"
    using due_date_rule [OF example_validate d1, of "100 * Hour" example_db] h1 by blast
  have r2: "\<not> (\<exists>t' db'. CreateTodo (100 * Hour) example_db (Some (new_todo (99 * Hour)))
                     = Return (Some DueDateInPast, t', db'))"
    using due_date_rule [OF example_validate d2, of "100 * Hour" example_db] h2 by blast
  show ?thesis
    using v e1 r1 e2 r2 example_create by (intro conjI)
qed

lemma color_six_invalid: "length color = 6 \<Longrightarrow> \<not> isValidHexColor color"
  by (simp add: isValidHexColor_def)

lemma validated_color:
  assumes "validateCategory (Some c) = None"
  shows "Category_Color c = [] \<or> isValidHexColor (Category_Color c)"
  using assms by (auto simp: validateCategory_def split: if_splits)

lemma valid_color_prefix: "isValidHexColor color \<Longrightarrow> HasPrefix color ''#''"
  by (cases color) (auto simp: isValidHexColor_def HasPrefix_def split: if_splits)

text \<open>
  Claim C3, as it holds: a category with a valid name whose color is six hex digits
  without the \<open>#\<close> is rejected by create with the invalid-color error, and by update
  with the same error when its key is not 0 and with the invalid-key error when it is 0;
  neither stores anything. Validation precedes the cleaning, and a color that passes it
  (empty, or \<open>#\<close> and six hex digits) is never changed by the cleaning.
\<close>

theorem color_without_hash:
  assumes "TrimSpace (Category_Name c) \<noteq> []" and "length (Category_Name c) \<le> 100"
    and "length (Category_Color c) = 6" and "list_all isHexDigit (Category_Color c)"
  shows "validateCategory (Some c) = Some InvalidColorFormat
       \<and> CreateCategory now db (Some c) = Return (Some InvalidColorFormat, Some c, db)
       \<and> UpdateCategory now db (Some c)
           = Return (Some (if Category_ID c = 0 then InvalidCategoryID else InvalidColorFormat),
               Some c, db)
       \<and> (\<forall>c'. validateCategory (Some c') = None \<longrightarrow>
            Category_Color (cleanCategoryData c') = Category_Color c')"
proof -
  have c0: "Category_Color c \<noteq> []" using assms(3) by auto
  have v: "validateCategory (Some c) = Some InvalidColorFormat"
    using assms(1,2) c0 color_six_invalid [OF assms(3)] by (simp add: validateCategory_def)
  have k: "Category_Color (cleanCategoryData c') = Category_Color c'"
    if "validateCategory (Some c') = None" for c'
    using validated_color [OF that] valid_color_prefix [of "Category_Color c'"]
    by (auto simp: cleanCategoryData_def Let_def)
  show ?thesis
    using v k by (simp add: CreateCategory_def UpdateCategory_def)
qed

lemma example_FF0000:
  "TrimSpace ''Urgent'' = ''Urgent''" "list_all isHexDigit ''FF0000''"
  by (simp_all add: TrimSpace_Urgent isHexDigit_def)

theorem color_without_hash_witness:
  "CreateCategory 200 example_db (Some (new_category 0 ''Urgent'' ''FF0000''))
     = Return (Some InvalidColorFormat, Some (new_category 0 ''Urgent'' ''FF0000''), example_db)
   \<and> UpdateCategory 200 example_db (Some (new_category 2 ''Urgent'' ''FF0000''))
     = Return (Some InvalidColorFormat, Some (new_category 2 ''Urgent'' ''FF0000''), example_db)
   \<and> UpdateCategory 200 example_db (Some (new_category 0 ''Urgent'' ''FF0000''))
     = Return (Some InvalidCategoryID, Some (new_category 0 ''Urgent'' ''FF0000''), example_db)"
  using color_without_hash [of "new_category 0 ''Urgent'' ''FF0000''" 200 example_db]
    color_without_hash [of "new_category 2 ''Urgent'' ''FF0000''" 200 example_db]
    example_FF0000
  by (simp add: new_category_def)

text \<open>The color \<open>FF0000\<close>: both operations return the error, the store is untouched.\<close>

theorem color_without_hash_counterexample:
  "list_all isHexDigit ''FF0000'' \<and> length ''FF0000'' = 6
   \<and> CreateCategory 200 example_db (Some (new_category 0 ''Urgent'' ''FF0000''))
     = Return (Some InvalidColorFormat, Some (new_category 0 ''Urgent'' ''FF0000''), example_db)
   \<and> UpdateCategory 200 example_db (Some (new_category 2 ''Urgent'' ''FF0000''))
     = Return (Some InvalidColorFormat, Some (new_category 2 ''Urgent'' ''FF0000''), example_db)"
  by (simp add: CreateCategory_def UpdateCategory_def validateCategory_def new_category_def
      TrimSpace_Urgent isHexDigit_def isValidHexColor_def)

lemma Save_Category_row:
  assumes "First_Category db (Category_ID c) = Some r"
    and "\<not> list_ex (\<lambda>r. Category_ID r \<noteq> Category_ID c \<and> Category_Name r = Category_Name c)
            (categories db)"
  shows "\<exists>db'. Save_Category now db c = (None, c\<lparr>Category_UpdatedAt := now\<rparr>, db')
           \<and> c\<lparr>Category_UpdatedAt := now\<rparr> \<in> set (categories db')
           \<and> todos db' = todos db"
proof -
  from assms(1) have r: "r \<in> set (categories db)" "Category_ID r = Category_ID c"
    "Category_DeletedAt r = None"
    unfolding First_Category_def by (auto simp: find_Some_iff)
  let ?c = "c\<lparr>Category_UpdatedAt := now\<rparr>"
  let ?db = "db\<lparr>categories :=
                    map (\<lambda>r. if Category_ID r = Category_ID ?c \<and> Category_DeletedAt r = None
                              then ?c else r) (categories db)\<rparr>"
  have s: "Save_Category now db c = (None, ?c, ?db)"
    using assms(2) by (simp add: Save_Category_def Let_def)
  have m: "?c \<in> set (categories ?db)"
    using r by (force simp: image_iff)
  show ?thesis using s m by simp
qed

text \<open>
  Claim C10: a category with a valid name and the empty color passes validation, the
  cleaning leaves the color empty, and an update of an existing category (no other row
  holding the name) stores the row with the empty color.
\<close>

theorem empty_color:
  assumes "Category_Color c = []"
    and "TrimSpace (Category_Name c) \<noteq> []" and "length (Category_Name c) \<le> 100"
  shows "validateCategory (Some c) = None
       \<and> Category_Color (cleanCategoryData c) = []
       \<and> (Category_ID c \<noteq> 0 \<and> First_Category db (Category_ID c) \<noteq> None
            \<and> \<not> list_ex (\<lambda>r. Category_ID r \<noteq> Category_ID c
                                \<and> Category_Name r = TrimSpace (Category_Name c)) (categories db)
          \<longrightarrow> (\<exists>c' db'. UpdateCategory now db (Some c) = Return (None, Some c', db')
                 \<and> c' \<in> set (categories db')
                 \<and> Category_ID c' = Category_ID c \<and> Category_Color c' = []))"
proof (intro conjI impI)
  show v: "validateCategory (Some c) = None"
    using assms by (simp add: validateCategory_def)
  show k: "Category_Color (cleanCategoryData c) = []"
    using assms(1) by (simp add: cleanCategoryData_def Let_def)
  assume h: "Category_ID c \<noteq> 0 \<and> First_Category db (Category_ID c) \<noteq> None
            \<and> \<not> list_ex (\<lambda>r. Category_ID r \<noteq> Category_ID c
                                \<and> Category_Name r = TrimSpace (Category_Name c)) (categories db)"
  let ?c = "cleanCategoryData c"
  have i: "Category_ID ?c = Category_ID c" and n: "Category_Name ?c = TrimSpace (Category_Name c)"
    by (simp_all add: cleanCategoryData_def Let_def)
  from h obtain r where r: "First_Category db (Category_ID ?c) = Some r"
    by (auto simp: i)
  have u: "\<not> list_ex (\<lambda>r. Category_ID r \<noteq> Category_ID ?c \<and> Category_Name r = Category_Name ?c)
            (categories db)"
    using h by (simp add: i n)
  from Save_Category_row [OF r u, of now] obtain db' where
    s: "Save_Category now db ?c = (None, ?c\<lparr>Category_UpdatedAt := now\<rparr>, db')"
    and m: "?c\<lparr>Category_UpdatedAt := now\<rparr> \<in> set (categories db')"
    by blast
  have "UpdateCategory now db (Some c)
          = Return (None, Some (?c\<lparr>Category_UpdatedAt := now\<rparr>), db')"
    using h v r s by (simp add: UpdateCategory_def categoryRepository_Update_def)
  with m i k
  show "\<exists>c' db'. UpdateCategory now db (Some c) = Return (None, Some c', db')
                 \<and> c' \<in> set (categories db')
                 \<and> Category_ID c' = Category_ID c \<and> Category_Color c' = []"
    by (intro exI [of _ "?c\<lparr>Category_UpdatedAt := now\<rparr>"] exI [of _ db']) simp
qed

lemma example_update_empty_color:
  "UpdateCategory 200 example_db (Some (new_category 2 '' Home '' []))
     = Return (None,
         Some ((new_category 2 ''Home'' [])\<lparr>Category_UpdatedAt := 200\<rparr>),
         example_db\<lparr>categories :=
           [category_row 1 ''Work'' ''#3B82F6'',
            (new_category 2 ''Home'' [])\<lparr>Category_UpdatedAt := 200\<rparr>]\<rparr>)"
proof -
  have t: "TrimSpace '' Home '' = ''Home''"
    by (rule TrimSpace_Home)
  have v: "validateCategory (Some (new_category 2 '' Home '' [])) = None"
    by (simp add: validateCategory_def new_category_def t)
  have c: "cleanCategoryData (new_category 2 '' Home '' []) = new_category 2 ''Home'' []"
    by (simp add: cleanCategoryData_def new_category_def t)
  have u: "categoryRepository_Update 200 example_db (new_category 2 ''Home'' [])
      = (None, (new_category 2 ''Home'' [])\<lparr>Category_UpdatedAt := 200\<rparr>,
         example_db\<lparr>categories :=
           [category_row 1 ''Work'' ''#3B82F6'',
            (new_category 2 ''Home'' [])\<lparr>Category_UpdatedAt := 200\<rparr>]\<rparr>)"
    by (simp add: categoryRepository_Update_def First_Category_def Save_Category_def
        example_db_def category_row_def new_category_def Let_def)
  show ?thesis
    by (simp add: UpdateCategory_def v c u) (simp add: new_category_def)
qed

theorem empty_color_witness:
  "validateCategory (Some (new_category 2 '' Home '' [])) = None
   \<and> Category_Color (cleanCategoryData (new_category 2 '' Home '' [])) = []
   \<and> UpdateCategory 200 example_db (Some (new_category 2 '' Home '' []))
     = Return (None,
         Some ((new_category 2 ''Home'' [])\<lparr>Category_UpdatedAt := 200\<rparr>),
         example_db\<lparr>categories :=
           [category_row 1 ''Work'' ''#3B82F6'',
            (new_category 2 ''Home'' [])\<lparr>Category_UpdatedAt := 200\<rparr>]\<rparr>)
   \<and> Category_Color ((new_category 2 ''Home'' [])\<lparr>Category_UpdatedAt := 200\<rparr>) = []"
proof -
  have a: "Category_Color (new_category 2 '' Home '' []) = []"
    "TrimSpace (Category_Name (new_category 2 '' Home '' [])) \<noteq> []"
    "length (Category_Name (new_category 2 '' Home '' [])) \<le> 100"
    by (simp_all add: new_category_def TrimSpace_Home)
  have e: "Category_Color ((new_category 2 ''Home'' [])\<lparr>Category_UpdatedAt := 200\<rparr>) = []"
    by (simp add: new_category_def)
  from empty_color [OF a, of example_db 200] example_update_empty_color e
  show ?thesis by blast
qed

end
